theory Spec2Isabelle
  imports Main "HOL-Library.Word"
begin

section \<open>Data model of package compressionstdlib\<close>

text \<open>
  \<^verbatim>\<open>type Algorithm int\<close> with \<^verbatim>\<open>Gzip = iota\<close> and \<^verbatim>\<open>Zlib\<close> the next constant.
  Any integer can be converted to an \<^verbatim>\<open>Algorithm\<close> (\<^verbatim>\<open>Algorithm(999)\<close> in the tests), so the
  type is the integers and not a two-element enumeration. The only operations on it
  are comparisons with constants, so the width of Go's \<^verbatim>\<open>int\<close> does not matter.
\<close>

type_synonym byte = "8 word"

type_synonym Algorithm = int

definition Gzip :: Algorithm where
  "Gzip = 0"

definition Zlib :: Algorithm where
  "Zlib = 1"

record Middleware =
  algorithm :: Algorithm
  level :: int

text \<open>
  \<^verbatim>\<open>type Option func(*Middleware)\<close>: an option mutates the middleware it is given;
  the model passes the state in and returns it updated.
\<close>

type_synonym Option = "Middleware \<Rightarrow> Middleware"

definition WithLevel :: "int \<Rightarrow> Option" where
  "WithLevel lvl = (\<lambda>m. if lvl \<ge> 1 \<and> lvl \<le> 9 then m\<lparr>level := lvl\<rparr> else m)"

text \<open>\<^verbatim>\<open>New\<close>: the struct literal with level 6, then the options applied in order.\<close>

definition New :: "Algorithm \<Rightarrow> Option list \<Rightarrow> Middleware" where
  "New alg opts = foldl (\<lambda>m opt. opt m) \<lparr>algorithm = alg, level = 6\<rparr> opts"

section \<open>Errors and panics\<close>

text \<open>
  Go error values as far as the package handles them: the sentinel \<^verbatim>\<open>io.EOF\<close>, an
  error carrying a message, and the error built by \<^verbatim>\<open>errors.Wrap\<close> of
  github.com/pkg/errors, which keeps the cause and prefixes a message.
  \<^verbatim>\<open>errors.Wrap(nil, msg)\<close> is \<^verbatim>\<open>nil\<close>. A \<^verbatim>\<open>nil\<close> error is \<open>None\<close>.
\<close>

datatype go_error = EOF | ErrorString string | withMessage go_error string

fun Error :: "go_error \<Rightarrow> string" where
  "Error EOF = ''EOF''"
| "Error (ErrorString s) = s"
| "Error (withMessage cause msg) = msg @ '': '' @ Error cause"

fun Cause :: "go_error \<Rightarrow> go_error" where
  "Cause (withMessage cause msg) = Cause cause"
| "Cause e = e"

definition Wrap :: "go_error option \<Rightarrow> string \<Rightarrow> go_error option" where
  "Wrap err message = (case err of None \<Rightarrow> None | Some e \<Rightarrow> Some (withMessage e message))"

text \<open>A call that panics returns \<open>Inl (Panic msg)\<close>, a call that returns gives \<open>Inr\<close>.\<close>

datatype panic = Panic string

section \<open>The codec libraries the package calls\<close>

text \<open>
  \<^verbatim>\<open>compress/gzip\<close> and \<^verbatim>\<open>compress/zlib\<close> are not part of the package; it only calls
  them. Each enters the model as a parameter: a record of the operations the package
  uses, over a writer handle \<open>'w\<close> and a reader handle \<open>'r\<close>.

  The sink is an in-memory byte buffer, as in the package's tests. The writer handle
  owns it from \<^verbatim>\<open>NewWriterLevel(w, level)\<close> on, and \<open>WriterSink\<close> reads the bytes that
  have reached it. The source of a reader is the byte sequence it reads from.
  \<^verbatim>\<open>Write(p)\<close> returns \<^verbatim>\<open>(n, err)\<close>, \<^verbatim>\<open>Read(p)\<close> is given \<^verbatim>\<open>len(p)\<close> and returns the bytes it
  stored in \<^verbatim>\<open>p[:n]\<close> with the error; every operation also returns the handle's new state.
\<close>

record ('w, 'r) codec =
  NewWriterLevel :: "byte list \<Rightarrow> int \<Rightarrow> go_error + 'w"
  WriterWrite :: "'w \<Rightarrow> byte list \<Rightarrow> (int \<times> go_error option) \<times> 'w"
  WriterClose :: "'w \<Rightarrow> go_error option \<times> 'w"
  WriterSink :: "'w \<Rightarrow> byte list"
  NewReader :: "byte list \<Rightarrow> go_error + 'r"
  ReaderRead :: "'r \<Rightarrow> nat \<Rightarrow> (byte list \<times> go_error option) \<times> 'r"
  ReaderClose :: "'r \<Rightarrow> go_error option \<times> 'r"

record ('gw, 'gr, 'zw, 'zr) stdlib =
  gzip :: "('gw, 'gr) codec"
  zlib :: "('zw, 'zr) codec"

section \<open>Writer and Reader\<close>

text \<open>
  The values behind the returned \<^verbatim>\<open>io.Writer\<close>: \<^verbatim>\<open>&gzipWriteCloser{gzipWriter}\<close> or
  \<^verbatim>\<open>&zlibWriteCloser{zlibWriter}\<close>. Behind the returned \<^verbatim>\<open>io.Reader\<close>: the
  \<^verbatim>\<open>*gzip.Reader\<close> itself or \<^verbatim>\<open>&zlibReadCloser{zlibReader}\<close>.
\<close>

datatype ('gw, 'zw) io_Writer = gzipWriteCloser 'gw | zlibWriteCloser 'zw

datatype ('gr, 'zr) io_Reader = gzip_Reader 'gr | zlibReadCloser 'zr

definition Writer ::
  "('gw, 'gr, 'zw, 'zr) stdlib \<Rightarrow> Middleware \<Rightarrow> byte list \<Rightarrow> panic + ('gw, 'zw) io_Writer" where
  "Writer lib m w =
     (if algorithm m = Gzip then
        (case NewWriterLevel (gzip lib) w (level m) of
           Inl err \<Rightarrow> Inl (Panic (''failed to create gzip writer: '' @ Error err))
         | Inr gzipWriter \<Rightarrow> Inr (gzipWriteCloser gzipWriter))
      else if algorithm m = Zlib then
        (case NewWriterLevel (zlib lib) w (level m) of
           Inl err \<Rightarrow> Inl (Panic (''failed to create zlib writer: '' @ Error err))
         | Inr zlibWriter \<Rightarrow> Inr (zlibWriteCloser zlibWriter))
      else Inl (Panic ''unsupported compression algorithm''))"

definition Reader ::
  "('gw, 'gr, 'zw, 'zr) stdlib \<Rightarrow> Middleware \<Rightarrow> byte list \<Rightarrow> panic + ('gr, 'zr) io_Reader" where
  "Reader lib m r =
     (if algorithm m = Gzip then
        (case NewReader (gzip lib) r of
           Inl err \<Rightarrow> Inl (Panic (''failed to create gzip reader: '' @ Error err))
         | Inr gzipReader \<Rightarrow> Inr (gzip_Reader gzipReader))
      else if algorithm m = Zlib then
        (case NewReader (zlib lib) r of
           Inl err \<Rightarrow> Inl (Panic (''failed to create zlib reader: '' @ Error err))
         | Inr zlibReader \<Rightarrow> Inr (zlibReadCloser zlibReader))
      else Inl (Panic ''unsupported compression algorithm''))"

text \<open>The methods of the three wrapper types.\<close>

definition gzipWriteCloser_Write ::
  "('gw, 'gr) codec \<Rightarrow> 'gw \<Rightarrow> byte list \<Rightarrow> (int \<times> go_error option) \<times> 'gw" where
  "gzipWriteCloser_Write gz w p = WriterWrite gz w p"

definition gzipWriteCloser_Close :: "('gw, 'gr) codec \<Rightarrow> 'gw \<Rightarrow> go_error option \<times> 'gw" where
  "gzipWriteCloser_Close gz w =
     (case WriterClose gz w of
        (Some err, w') \<Rightarrow> (Wrap (Some err) ''failed to close gzip writer'', w')
      | (None, w') \<Rightarrow> (None, w'))"

definition zlibWriteCloser_Write ::
  "('zw, 'zr) codec \<Rightarrow> 'zw \<Rightarrow> byte list \<Rightarrow> (int \<times> go_error option) \<times> 'zw" where
  "zlibWriteCloser_Write zl w p = WriterWrite zl w p"

definition zlibWriteCloser_Close :: "('zw, 'zr) codec \<Rightarrow> 'zw \<Rightarrow> go_error option \<times> 'zw" where
  "zlibWriteCloser_Close zl w =
     (case WriterClose zl w of
        (Some err, w') \<Rightarrow> (Wrap (Some err) ''failed to close zlib writer'', w')
      | (None, w') \<Rightarrow> (None, w'))"

definition zlibReadCloser_Read ::
  "('zw, 'zr) codec \<Rightarrow> 'zr \<Rightarrow> nat \<Rightarrow> (byte list \<times> go_error option) \<times> 'zr" where
  "zlibReadCloser_Read zl r n = ReaderRead zl r n"

definition zlibReadCloser_Close :: "('zw, 'zr) codec \<Rightarrow> 'zr \<Rightarrow> go_error option \<times> 'zr" where
  "zlibReadCloser_Close zl r = ReaderClose zl r"

text \<open>
  Calling a method through the interface value dispatches on the wrapper behind it.
  A \<^verbatim>\<open>*gzip.Reader\<close> is returned unwrapped, so its methods are the library's own.
\<close>

fun Write ::
  "('gw, 'gr, 'zw, 'zr) stdlib \<Rightarrow> ('gw, 'zw) io_Writer \<Rightarrow> byte list
     \<Rightarrow> (int \<times> go_error option) \<times> ('gw, 'zw) io_Writer" where
  "Write lib (gzipWriteCloser w) p =
     (case gzipWriteCloser_Write (gzip lib) w p of (res, w') \<Rightarrow> (res, gzipWriteCloser w'))"
| "Write lib (zlibWriteCloser w) p =
     (case zlibWriteCloser_Write (zlib lib) w p of (res, w') \<Rightarrow> (res, zlibWriteCloser w'))"

fun Close ::
  "('gw, 'gr, 'zw, 'zr) stdlib \<Rightarrow> ('gw, 'zw) io_Writer
     \<Rightarrow> go_error option \<times> ('gw, 'zw) io_Writer" where
  "Close lib (gzipWriteCloser w) =
     (case gzipWriteCloser_Close (gzip lib) w of (err, w') \<Rightarrow> (err, gzipWriteCloser w'))"
| "Close lib (zlibWriteCloser w) =
     (case zlibWriteCloser_Close (zlib lib) w of (err, w') \<Rightarrow> (err, zlibWriteCloser w'))"

fun Read ::
  "('gw, 'gr, 'zw, 'zr) stdlib \<Rightarrow> ('gr, 'zr) io_Reader \<Rightarrow> nat
     \<Rightarrow> (byte list \<times> go_error option) \<times> ('gr, 'zr) io_Reader" where
  "Read lib (gzip_Reader r) n =
     (case ReaderRead (gzip lib) r n of (res, r') \<Rightarrow> (res, gzip_Reader r'))"
| "Read lib (zlibReadCloser r) n =
     (case zlibReadCloser_Read (zlib lib) r n of (res, r') \<Rightarrow> (res, zlibReadCloser r'))"

text \<open>The bytes that have reached the sink behind a write-side adapter.\<close>

fun Sink :: "('gw, 'gr, 'zw, 'zr) stdlib \<Rightarrow> ('gw, 'zw) io_Writer \<Rightarrow> byte list" where
  "Sink lib (gzipWriteCloser w) = WriterSink (gzip lib) w"
| "Sink lib (zlibWriteCloser w) = WriterSink (zlib lib) w"


section \<open>Driving the adapters\<close>

text \<open>
  The caller's side of a transfer, as the package's tests perform it: every chunk is
  written with one \<^verbatim>\<open>Write\<close> call, stopping at the first error, then the writer is
  closed. The loops are generic in the write and read operation, so that the same
  loop drives an adapter of the package and a handle of the library.
\<close>

fun WriteAll ::
  "('a \<Rightarrow> byte list \<Rightarrow> (int \<times> go_error option) \<times> 'a) \<Rightarrow> 'a \<Rightarrow> byte list list
     \<Rightarrow> go_error option \<times> 'a" where
  "WriteAll wr a [] = (None, a)"
| "WriteAll wr a (p # ps) =
     (case wr a p of
        ((n, Some err), a') \<Rightarrow> (Some err, a')
      | ((n, None), a') \<Rightarrow> WriteAll wr a' ps)"

text \<open>
  \<^verbatim>\<open>io.ReadAll\<close>: call \<^verbatim>\<open>Read\<close> until it returns an error, append what each call
  delivered, and report \<^verbatim>\<open>io.EOF\<close> as success. The list gives the length of the buffer
  of each successive call (Go grows the buffer as it fills); the loop may never see
  an error, so the list is also the bound on the number of calls, and the result is
  \<open>None\<close> when the list runs out before the reader reports an error.
\<close>

fun ReadAll ::
  "('a \<Rightarrow> nat \<Rightarrow> (byte list \<times> go_error option) \<times> 'a) \<Rightarrow> nat list \<Rightarrow> 'a \<Rightarrow> byte list
     \<Rightarrow> (byte list \<times> go_error option) option" where
  "ReadAll rd [] r b = None"
| "ReadAll rd (n # ns) r b =
     (case rd r n of
        ((p, Some err), r') \<Rightarrow> Some (b @ p, if err = EOF then None else Some err)
      | ((p, None), r') \<Rightarrow> ReadAll rd ns r' (b @ p))"

text \<open>
  Compressing through the middleware into an empty buffer: \<^verbatim>\<open>Writer\<close>, the writes,
  \<^verbatim>\<open>Close\<close>, then the buffer's bytes. The result is a panic, an error of a write or of
  the close, or the compressed bytes.
\<close>

definition compress ::
  "('gw, 'gr, 'zw, 'zr) stdlib \<Rightarrow> Middleware \<Rightarrow> byte list list
     \<Rightarrow> panic + (go_error + byte list)" where
  "compress lib m chunks =
     (case Writer lib m [] of
        Inl pnc \<Rightarrow> Inl pnc
      | Inr cw \<Rightarrow>
          (case WriteAll (Write lib) cw chunks of
             (Some err, cw') \<Rightarrow> Inr (Inl err)
           | (None, cw') \<Rightarrow>
               (case Close lib cw' of
                  (Some err, cw'') \<Rightarrow> Inr (Inl err)
                | (None, cw'') \<Rightarrow> Inr (Inr (Sink lib cw'')))))"

text \<open>Decompressing through the middleware: \<^verbatim>\<open>Reader\<close>, then \<^verbatim>\<open>io.ReadAll\<close>.\<close>

definition decompress ::
  "('gw, 'gr, 'zw, 'zr) stdlib \<Rightarrow> Middleware \<Rightarrow> nat list \<Rightarrow> byte list
     \<Rightarrow> (panic + byte list \<times> go_error option) option" where
  "decompress lib m sizes z =
     (case Reader lib m z of
        Inl pnc \<Rightarrow> Some (Inl pnc)
      | Inr dr \<Rightarrow> map_option Inr (ReadAll (Read lib) sizes dr []))"

text \<open>
  The same two transfers performed on a codec of the library directly, without the
  package: what the codec's own format produces for the chunks, and what it reads back.
\<close>

definition codec_compress ::
  "('w, 'r) codec \<Rightarrow> int \<Rightarrow> byte list list \<Rightarrow> go_error + byte list" where
  "codec_compress c lvl chunks =
     (case NewWriterLevel c [] lvl of
        Inl err \<Rightarrow> Inl err
      | Inr w \<Rightarrow>
          (case WriteAll (WriterWrite c) w chunks of
             (Some err, w') \<Rightarrow> Inl err
           | (None, w') \<Rightarrow>
               (case WriterClose c w' of
                  (Some err, w'') \<Rightarrow> Inl err
                | (None, w'') \<Rightarrow> Inr (WriterSink c w''))))"

definition codec_decompress ::
  "('w, 'r) codec \<Rightarrow> nat list \<Rightarrow> byte list \<Rightarrow> (go_error + byte list \<times> go_error option) option" where
  "codec_decompress c sizes z =
     (case NewReader c z of
        Inl err \<Rightarrow> Some (Inl err)
      | Inr r \<Rightarrow> map_option Inr (ReadAll (ReaderRead c) sizes r []))"

text \<open>The codec of the library that belongs to a supported algorithm identifier.\<close>

definition lib_compress ::
  "('gw, 'gr, 'zw, 'zr) stdlib \<Rightarrow> Algorithm \<Rightarrow> int \<Rightarrow> byte list list \<Rightarrow> go_error + byte list" where
  "lib_compress lib a lvl chunks =
     (if a = Gzip then codec_compress (gzip lib) lvl chunks
      else codec_compress (zlib lib) lvl chunks)"

definition lib_decompress ::
  "('gw, 'gr, 'zw, 'zr) stdlib \<Rightarrow> Algorithm \<Rightarrow> nat list \<Rightarrow> byte list
     \<Rightarrow> (go_error + byte list \<times> go_error option) option" where
  "lib_decompress lib a sizes z =
     (if a = Gzip then codec_decompress (gzip lib) sizes z
      else codec_decompress (zlib lib) sizes z)"

section \<open>Sequences of operations on the write side\<close>

text \<open>
  A caller may interleave \<^verbatim>\<open>Write\<close> and \<^verbatim>\<open>Close\<close> calls as it likes and ignore what they
  return. \<open>middleware_sink\<close> gives the bytes in the sink after such a sequence on the
  adapter returned by \<^verbatim>\<open>Writer\<close>; \<open>codec_sink\<close> gives them for the same sequence on
  the handle returned by the library's \<^verbatim>\<open>NewWriterLevel\<close>, which is what the codec's
  format produces by itself.
\<close>
datatype write_op = OpWrite "byte list" | OpClose

fun adapter_step ::
  "('gw, 'gr, 'zw, 'zr) stdlib \<Rightarrow> ('gw, 'zw) io_Writer \<Rightarrow> write_op \<Rightarrow> ('gw, 'zw) io_Writer" where
  "adapter_step lib cw (OpWrite p) = snd (Write lib cw p)"
| "adapter_step lib cw OpClose = snd (Close lib cw)"

fun codec_step :: "('w, 'r) codec \<Rightarrow> 'w \<Rightarrow> write_op \<Rightarrow> 'w" where
  "codec_step c w (OpWrite p) = snd (WriterWrite c w p)"
| "codec_step c w OpClose = snd (WriterClose c w)"

definition middleware_sink ::
  "('gw, 'gr, 'zw, 'zr) stdlib \<Rightarrow> Middleware \<Rightarrow> byte list \<Rightarrow> write_op list \<Rightarrow> panic + byte list" where
  "middleware_sink lib m w ops =
     (case Writer lib m w of
        Inl pnc \<Rightarrow> Inl pnc
      | Inr cw \<Rightarrow> Inr (Sink lib (foldl (adapter_step lib) cw ops)))"

definition codec_sink ::
  "('w, 'r) codec \<Rightarrow> byte list \<Rightarrow> int \<Rightarrow> write_op list \<Rightarrow> go_error + byte list" where
  "codec_sink c w lvl ops =
     (case NewWriterLevel c w lvl of
        Inl err \<Rightarrow> Inl err
      | Inr cw \<Rightarrow> Inr (WriterSink c (foldl (codec_step c) cw ops)))"

section \<open>A stored-format codec to instantiate the library with\<close>

text \<open>
  The theorems below hold for every pair of codecs. To apply them to concrete inputs
  the parameter is instantiated with a small executable codec. It is not Go's gzip or
  zlib: it stores the payload uncompressed between a magic header and a one-byte
  additive checksum. It has the failure modes the package reacts to: a level outside
  -2..9 is refused, as the Go libraries document for \<^verbatim>\<open>NewWriterLevel\<close>; a sink of
  bounded capacity makes \<^verbatim>\<open>Close\<close> fail; a wrong magic is refused by \<^verbatim>\<open>NewReader\<close>; a
  wrong checksum is reported by the \<^verbatim>\<open>Read\<close> that reaches the end of the payload.
\<close>

record stored_writer =
  sw_sink :: "byte list"
  sw_data :: "byte list"
  sw_closed :: bool

record stored_reader =
  sr_rest :: "byte list"
  sr_sum :: byte

definition stored_NewWriterLevel :: "byte list \<Rightarrow> int \<Rightarrow> go_error + stored_writer" where
  "stored_NewWriterLevel w lvl =
     (if lvl < - 2 \<or> lvl > 9 then Inl (ErrorString ''invalid compression level'')
      else Inr \<lparr>sw_sink = w, sw_data = [], sw_closed = False\<rparr>)"

definition stored_Write ::
  "stored_writer \<Rightarrow> byte list \<Rightarrow> (int \<times> go_error option) \<times> stored_writer" where
  "stored_Write w p =
     (if sw_closed w then ((0, Some (ErrorString ''write after close'')), w)
      else ((int (length p), None), w\<lparr>sw_data := sw_data w @ p\<rparr>))"

definition stored_Close ::
  "byte list \<Rightarrow> nat \<Rightarrow> stored_writer \<Rightarrow> go_error option \<times> stored_writer" where
  "stored_Close magic cap w =
     (if sw_closed w then (None, w)
      else if length (sw_sink w) + length magic + length (sw_data w) + 1 > cap
        then (Some (ErrorString ''short write''), w\<lparr>sw_closed := True\<rparr>)
      else (None, w\<lparr>sw_sink := sw_sink w @ magic @ sw_data w @ [sum_list (sw_data w)],
                     sw_closed := True\<rparr>))"

definition stored_NewReader :: "byte list \<Rightarrow> byte list \<Rightarrow> go_error + stored_reader" where
  "stored_NewReader magic src =
     (if take (length magic) src = magic
      then Inr \<lparr>sr_rest = drop (length magic) src, sr_sum = 0\<rparr>
      else Inl (ErrorString ''invalid header''))"

definition stored_Read ::
  "stored_reader \<Rightarrow> nat \<Rightarrow> (byte list \<times> go_error option) \<times> stored_reader" where
  "stored_Read r n =
     (if length (sr_rest r) \<le> 1 then
        (if sr_rest r = [sr_sum r] then (([], Some EOF), r)
         else (([], Some (ErrorString ''invalid checksum'')), r))
      else
        (let p = take (min n (length (sr_rest r) - 1)) (sr_rest r)
         in ((p, None), \<lparr>sr_rest = drop (length p) (sr_rest r), sr_sum = sr_sum r + sum_list p\<rparr>)))"

definition stored_codec :: "byte list \<Rightarrow> nat \<Rightarrow> (stored_writer, stored_reader) codec" where
  "stored_codec magic cap =
     \<lparr>NewWriterLevel = stored_NewWriterLevel,
      WriterWrite = stored_Write,
      WriterClose = stored_Close magic cap,
      WriterSink = sw_sink,
      NewReader = stored_NewReader magic,
      ReaderRead = stored_Read,
      ReaderClose = (\<lambda>r. (None, r))\<rparr>"

definition stored_lib ::
  "nat \<Rightarrow> (stored_writer, stored_reader, stored_writer, stored_reader) stdlib" where
  "stored_lib cap = \<lparr>gzip = stored_codec [0x1f, 0x8b] cap, zlib = stored_codec [0x78, 0x9c] cap\<rparr>"


section \<open>Construction\<close>

lemma WithLevel_algorithm: "algorithm (WithLevel l m) = algorithm m"
  by (simp add: WithLevel_def)

lemma WithLevel_valid: "1 \<le> l \<Longrightarrow> l \<le> 9 \<Longrightarrow> WithLevel l m = m\<lparr>level := l\<rparr>"
  by (simp add: WithLevel_def)

lemma WithLevel_invalid: "\<not> (1 \<le> l \<and> l \<le> 9) \<Longrightarrow> WithLevel l m = m"
  by (auto simp add: WithLevel_def)

lemma foldl_WithLevel:
  "foldl (\<lambda>m opt. opt m) m0 (map WithLevel ls) =
     m0\<lparr>level := last (level m0 # filter (\<lambda>l. 1 \<le> l \<and> l \<le> 9) ls)\<rparr>"
proof (induction ls arbitrary: m0)
  case Nil
  show ?case by simp
next
  case (Cons l ls)
  show ?case
  proof (cases "1 \<le> l \<and> l \<le> 9")
    case True
    then show ?thesis
      by (simp add: Cons.IH WithLevel_valid)
  next
    case False
    then have "WithLevel l m0 = m0"
      by (rule WithLevel_invalid)
    with False show ?thesis
      by (auto simp add: Cons.IH)
  qed
qed

lemma New_WithLevel:
  "New a (map WithLevel ls) =
     \<lparr>algorithm = a, level = last (6 # filter (\<lambda>l. 1 \<le> l \<and> l \<le> 9) ls)\<rparr>"
  by (simp add: New_def foldl_WithLevel)

lemma last_filter_range:
  fixes d :: int
  assumes "1 \<le> d" "d \<le> 9"
  shows "1 \<le> last (d # filter (\<lambda>l. 1 \<le> l \<and> l \<le> 9) ls)
       \<and> last (d # filter (\<lambda>l. 1 \<le> l \<and> l \<le> 9) ls) \<le> 9"
proof (cases "filter (\<lambda>l. 1 \<le> l \<and> l \<le> 9) ls = []")
  case True
  with assms show ?thesis by simp
next
  case False
  then have "last (filter (\<lambda>l. 1 \<le> l \<and> l \<le> 9) ls) \<in> set (filter (\<lambda>l. 1 \<le> l \<and> l \<le> 9) ls)"
    by (rule last_in_set)
  with False show ?thesis by simp
qed

lemma New_level_range:
  "1 \<le> level (New a (map WithLevel ls)) \<and> level (New a (map WithLevel ls)) \<le> 9"
  using last_filter_range [of 6 ls] by (simp add: New_WithLevel)

text \<open>
  Claim C2. Whatever levels the \<^verbatim>\<open>WithLevel\<close> options of a call to \<^verbatim>\<open>New\<close> ask for,
  the level of the constructed middleware lies in 1..9. With no option it is 6. A
  trailing \<^verbatim>\<open>WithLevel(L)\<close> with L in 1..9 makes the level L. A \<^verbatim>\<open>WithLevel\<close>
  with a value outside 1..9 returns the middleware it was given unchanged, so the
  level stays what it was, and it is 6 when no option of the list was in range.
  \<^verbatim>\<open>New\<close> has no error result: it returns the middleware for every list.
\<close>

theorem New_level_invariant:
  "1 \<le> level (New a (map WithLevel ls)) \<and> level (New a (map WithLevel ls)) \<le> 9
   \<and> level (New a []) = 6
   \<and> (1 \<le> L \<and> L \<le> 9 \<longrightarrow> level (New a (map WithLevel (ls @ [L]))) = L)
   \<and> (\<not> (1 \<le> L \<and> L \<le> 9) \<longrightarrow>
        WithLevel L m = m
        \<and> New a (map WithLevel (ls @ [L])) = New a (map WithLevel ls))
   \<and> ((\<forall>l \<in> set ls. \<not> (1 \<le> l \<and> l \<le> 9)) \<longrightarrow> level (New a (map WithLevel ls)) = 6)"
proof -
  have inv: "(\<forall>l \<in> set ls. \<not> (1 \<le> l \<and> l \<le> 9)) \<longrightarrow> filter (\<lambda>l. 1 \<le> l \<and> l \<le> 9) ls = []"
    by (simp add: filter_empty_conv)
  have app: "New a (map WithLevel (ls @ [L])) = WithLevel L (New a (map WithLevel ls))"
    by (simp add: New_def)
  have c3: "1 \<le> L \<and> L \<le> 9 \<longrightarrow> level (New a (map WithLevel (ls @ [L]))) = L"
    unfolding app by (simp add: WithLevel_valid)
  have c4: "\<not> (1 \<le> L \<and> L \<le> 9) \<longrightarrow>
        WithLevel L m = m \<and> New a (map WithLevel (ls @ [L])) = New a (map WithLevel ls)"
    unfolding app using WithLevel_invalid [of L] by blast
  have c5: "(\<forall>l \<in> set ls. \<not> (1 \<le> l \<and> l \<le> 9)) \<longrightarrow> level (New a (map WithLevel ls)) = 6"
    using inv by (simp add: New_WithLevel)
  have c2: "level (New a []) = 6"
    by (simp add: New_def)
  from New_level_range [of a ls] c2 c3 c4 c5 show ?thesis
    by blast
qed

theorem New_level_invariant_witness:
  "level (New Gzip []) = 6
   \<and> level (New Gzip (map WithLevel [0, 15, - 1])) = 6
   \<and> level (New Gzip (map WithLevel ([15] @ [9]))) = 9
   \<and> New Zlib (map WithLevel ([3] @ [15])) = New Zlib (map WithLevel [3])
   \<and> level (New Zlib (map WithLevel [3])) = 3"
  using New_level_invariant [where a = Gzip and ls = "[0, 15, - 1]" and L = 0]
    New_level_invariant [where a = Gzip and ls = "[15]" and L = 9]
    New_level_invariant [where a = Zlib and ls = "[3]" and L = 15]
    New_level_invariant [where a = Zlib and ls = "[]" and L = 3]
  by simp


section \<open>Algorithm dispatch\<close>

lemmas stored_defs = stored_lib_def stored_codec_def stored_NewWriterLevel_def stored_Write_def stored_Close_def
  stored_NewReader_def stored_Read_def

lemma Writer_unsupported:
  "algorithm m \<noteq> Gzip \<Longrightarrow> algorithm m \<noteq> Zlib \<Longrightarrow>
     Writer lib m w = Inl (Panic ''unsupported compression algorithm'')"
  by (simp add: Writer_def)

lemma Reader_unsupported:
  "algorithm m \<noteq> Gzip \<Longrightarrow> algorithm m \<noteq> Zlib \<Longrightarrow>
     Reader lib m r = Inl (Panic ''unsupported compression algorithm'')"
  by (simp add: Reader_def)

lemma Writer_Gzip:
  "algorithm m = Gzip \<Longrightarrow>
     Writer lib m w =
       (case NewWriterLevel (gzip lib) w (level m) of
          Inl err \<Rightarrow> Inl (Panic (''failed to create gzip writer: '' @ Error err))
        | Inr gw \<Rightarrow> Inr (gzipWriteCloser gw))"
  by (simp add: Writer_def)

lemma Writer_Zlib:
  "algorithm m = Zlib \<Longrightarrow>
     Writer lib m w =
       (case NewWriterLevel (zlib lib) w (level m) of
          Inl err \<Rightarrow> Inl (Panic (''failed to create zlib writer: '' @ Error err))
        | Inr zw \<Rightarrow> Inr (zlibWriteCloser zw))"
  by (simp add: Writer_def Gzip_def Zlib_def)

lemma Reader_Gzip:
  "algorithm m = Gzip \<Longrightarrow>
     Reader lib m r =
       (case NewReader (gzip lib) r of
          Inl err \<Rightarrow> Inl (Panic (''failed to create gzip reader: '' @ Error err))
        | Inr gr \<Rightarrow> Inr (gzip_Reader gr))"
  by (simp add: Reader_def)

lemma Reader_Zlib:
  "algorithm m = Zlib \<Longrightarrow>
     Reader lib m r =
       (case NewReader (zlib lib) r of
          Inl err \<Rightarrow> Inl (Panic (''failed to create zlib reader: '' @ Error err))
        | Inr zr \<Rightarrow> Inr (zlibReadCloser zr))"
  by (simp add: Reader_def Gzip_def Zlib_def)

lemma Writer_supported_no_fallthrough:
  "algorithm m = Gzip \<or> algorithm m = Zlib \<Longrightarrow>
     Writer lib m w \<noteq> Inl (Panic ''unsupported compression algorithm'')"
  by (auto simp add: Writer_Gzip Writer_Zlib split: sum.splits)

lemma Reader_supported_no_fallthrough:
  "algorithm m = Gzip \<or> algorithm m = Zlib \<Longrightarrow>
     Reader lib m r \<noteq> Inl (Panic ''unsupported compression algorithm'')"
  by (auto simp add: Reader_Gzip Reader_Zlib split: sum.splits)

text \<open>
  Claim C3. \<^verbatim>\<open>Writer\<close> and \<^verbatim>\<open>Reader\<close> dispatch on exactly two identifiers. For
  \<^verbatim>\<open>Gzip\<close> the result is decided by the gzip library alone and for \<^verbatim>\<open>Zlib\<close> by the zlib
  library alone. For every other algorithm value both calls panic with
  "unsupported compression algorithm", and for the two supported values neither call
  ever ends in that panic: there is no fallback to a default algorithm.
\<close>

theorem dispatch_exhaustive:
  "(algorithm m \<noteq> Gzip \<and> algorithm m \<noteq> Zlib \<longrightarrow>
      Writer lib m w = Inl (Panic ''unsupported compression algorithm'')
      \<and> Reader lib m r = Inl (Panic ''unsupported compression algorithm''))
   \<and> (algorithm m = Gzip \<longrightarrow>
      Writer lib m w =
        (case NewWriterLevel (gzip lib) w (level m) of
           Inl err \<Rightarrow> Inl (Panic (''failed to create gzip writer: '' @ Error err))
         | Inr gw \<Rightarrow> Inr (gzipWriteCloser gw))
      \<and> Reader lib m r =
        (case NewReader (gzip lib) r of
           Inl err \<Rightarrow> Inl (Panic (''failed to create gzip reader: '' @ Error err))
         | Inr gr \<Rightarrow> Inr (gzip_Reader gr)))
   \<and> (algorithm m = Zlib \<longrightarrow>
      Writer lib m w =
        (case NewWriterLevel (zlib lib) w (level m) of
           Inl err \<Rightarrow> Inl (Panic (''failed to create zlib writer: '' @ Error err))
         | Inr zw \<Rightarrow> Inr (zlibWriteCloser zw))
      \<and> Reader lib m r =
        (case NewReader (zlib lib) r of
           Inl err \<Rightarrow> Inl (Panic (''failed to create zlib reader: '' @ Error err))
         | Inr zr \<Rightarrow> Inr (zlibReadCloser zr)))
   \<and> (algorithm m = Gzip \<or> algorithm m = Zlib \<longrightarrow>
      Writer lib m w \<noteq> Inl (Panic ''unsupported compression algorithm'')
      \<and> Reader lib m r \<noteq> Inl (Panic ''unsupported compression algorithm''))"
  using Writer_unsupported [of m lib w] Reader_unsupported [of m lib r]
    Writer_Gzip [of m lib w] Writer_Zlib [of m lib w] Reader_Gzip [of m lib r] Reader_Zlib [of m lib r]
    Writer_supported_no_fallthrough [of m lib w] Reader_supported_no_fallthrough [of m lib r]
  by blast

theorem dispatch_exhaustive_witness:
  "Writer (stored_lib 100) (New 999 []) [] = Inl (Panic ''unsupported compression algorithm'')
   \<and> Reader (stored_lib 100) (New 2 []) [0x1f, 0x8b, 0] = Inl (Panic ''unsupported compression algorithm'')
   \<and> Reader (stored_lib 100) (New (- 1) []) [0x78, 0x9c, 0] = Inl (Panic ''unsupported compression algorithm'')
   \<and> Writer (stored_lib 100) (New Gzip []) [] =
        Inr (gzipWriteCloser \<lparr>sw_sink = [], sw_data = [], sw_closed = False\<rparr>)
   \<and> Reader (stored_lib 100) (New Gzip []) [0x1f, 0x8b, 0] = Inr (gzip_Reader \<lparr>sr_rest = [0], sr_sum = 0\<rparr>)
   \<and> Reader (stored_lib 100) (New Zlib []) [0x78, 0x9c, 0] = Inr (zlibReadCloser \<lparr>sr_rest = [0], sr_sum = 0\<rparr>)
   \<and> Reader (stored_lib 100) (New Zlib []) [0x1f, 0x8b, 0] = Inl (Panic ''failed to create zlib reader: invalid header'')"
  using dispatch_exhaustive [where m = "New 999 []" and lib = "stored_lib 100" and w = "[]"]
    dispatch_exhaustive [where m = "New 2 []" and lib = "stored_lib 100" and r = "[0x1f, 0x8b, 0]"]
    dispatch_exhaustive [where m = "New (- 1) []" and lib = "stored_lib 100" and r = "[0x78, 0x9c, 0]"]
    dispatch_exhaustive [where m = "New Gzip []" and lib = "stored_lib 100" and w = "[]" and r = "[0x1f, 0x8b, 0]"]
    dispatch_exhaustive [where m = "New Zlib []" and lib = "stored_lib 100" and r = "[0x78, 0x9c, 0]"]
    dispatch_exhaustive [where m = "New Zlib []" and lib = "stored_lib 100" and r = "[0x1f, 0x8b, 0]"]
  by (simp add: New_def Gzip_def Zlib_def stored_defs)

text \<open>
  Claim C9. \<^verbatim>\<open>New\<close> returns a middleware for every algorithm value, also an
  unrecognised one such as \<^verbatim>\<open>Algorithm(999)\<close>, and for every list of \<^verbatim>\<open>WithLevel\<close>
  options: it stores the algorithm as given, without looking at it. The unsupported
  algorithm shows only when \<^verbatim>\<open>Writer\<close> or \<^verbatim>\<open>Reader\<close> is called on the middleware,
  and each of them then panics.
\<close>

theorem New_never_fails:
  "New a (map WithLevel ls) =
     \<lparr>algorithm = a, level = last (6 # filter (\<lambda>l. 1 \<le> l \<and> l \<le> 9) ls)\<rparr>
   \<and> algorithm (New a (map WithLevel ls)) = a
   \<and> (a \<noteq> Gzip \<and> a \<noteq> Zlib \<longrightarrow>
        Writer lib (New a (map WithLevel ls)) w = Inl (Panic ''unsupported compression algorithm'')
        \<and> Reader lib (New a (map WithLevel ls)) r = Inl (Panic ''unsupported compression algorithm''))"
  using Writer_unsupported [of "New a (map WithLevel ls)" lib w]
    Reader_unsupported [of "New a (map WithLevel ls)" lib r]
  by (simp add: New_WithLevel)

theorem New_never_fails_witness:
  "New 999 (map WithLevel [15, 3, 0]) = \<lparr>algorithm = 999, level = 3\<rparr>
   \<and> Writer (stored_lib 100) (New 999 (map WithLevel [15, 3, 0])) [] =
       Inl (Panic ''unsupported compression algorithm'')
   \<and> Reader (stored_lib 100) (New 999 (map WithLevel [15, 3, 0])) [0x1f, 0x8b, 0] =
       Inl (Panic ''unsupported compression algorithm'')"
  using New_never_fails [where a = 999 and ls = "[15, 3, 0]" and lib = "stored_lib 100"
      and w = "[]" and r = "[0x1f, 0x8b, 0]"]
  by (simp add: Gzip_def Zlib_def New_def WithLevel_def)

text \<open>
  Claim C10. For a middleware constructed by \<^verbatim>\<open>New\<close> with \<^verbatim>\<open>Gzip\<close> or \<^verbatim>\<open>Zlib\<close> and any
  list of \<^verbatim>\<open>WithLevel\<close> options, \<^verbatim>\<open>Writer\<close> does not panic: the level is in 1..9 by
  construction, and the libraries' \<^verbatim>\<open>NewWriterLevel\<close> accepts every level in 1..9
  (the libraries' documented contract, here the hypothesis on the parameter).
\<close>

theorem Writer_init_never_panics:
  assumes "a = Gzip \<or> a = Zlib"
    and "\<forall>lvl \<in> {1..9}. \<not> isl (NewWriterLevel (gzip lib) w lvl)"
    and "\<forall>lvl \<in> {1..9}. \<not> isl (NewWriterLevel (zlib lib) w lvl)"
  shows "level (New a (map WithLevel ls)) \<in> {1..9}
       \<and> \<not> isl (Writer lib (New a (map WithLevel ls)) w)"
proof -
  let ?m = "New a (map WithLevel ls)"
  have lv: "level ?m \<in> {1..9}"
    using New_level_range [of a ls] by simp
  have alg: "algorithm ?m = a"
    by (simp add: New_WithLevel)
  from assms(1) show ?thesis
  proof
    assume "a = Gzip"
    with alg have "algorithm ?m = Gzip" by simp
    moreover from lv assms(2) have "\<not> isl (NewWriterLevel (gzip lib) w (level ?m))" by blast
    ultimately have "\<not> isl (Writer lib ?m w)"
      by (auto simp add: Writer_Gzip split: sum.splits)
    with lv show ?thesis by blast
  next
    assume "a = Zlib"
    with alg have "algorithm ?m = Zlib" by simp
    moreover from lv assms(3) have "\<not> isl (NewWriterLevel (zlib lib) w (level ?m))" by blast
    ultimately have "\<not> isl (Writer lib ?m w)"
      by (auto simp add: Writer_Zlib split: sum.splits)
    with lv show ?thesis by blast
  qed
qed

theorem Writer_init_never_panics_witness:
  "level (New Zlib (map WithLevel [0, 15, 9, - 1])) \<in> {1..9}
   \<and> \<not> isl (Writer (stored_lib 100) (New Zlib (map WithLevel [0, 15, 9, - 1])) [])
   \<and> \<not> isl (Writer (stored_lib 100) (New Gzip (map WithLevel [100])) [])"
proof -
  have g: "\<forall>lvl \<in> {1..9}. \<not> isl (NewWriterLevel (gzip (stored_lib 100)) [] lvl)"
    by (simp add: stored_defs)
  have z: "\<forall>lvl \<in> {1..9}. \<not> isl (NewWriterLevel (zlib (stored_lib 100)) [] lvl)"
    by (simp add: stored_defs)
  have "Zlib = Gzip \<or> Zlib = Zlib" "Gzip = Gzip \<or> Gzip = Zlib" by simp_all
  from Writer_init_never_panics [OF this(1) g z, of "[0, 15, 9, - 1]"]
    Writer_init_never_panics [OF this(2) g z, of "[100]"]
  show ?thesis by blast
qed

section \<open>The adapters delegate\<close>

lemma Write_gzip:
  "Write lib (gzipWriteCloser w) p =
     (fst (WriterWrite (gzip lib) w p), gzipWriteCloser (snd (WriterWrite (gzip lib) w p)))"
  by (simp add: gzipWriteCloser_Write_def split: prod.splits)

lemma Write_zlib:
  "Write lib (zlibWriteCloser w) p =
     (fst (WriterWrite (zlib lib) w p), zlibWriteCloser (snd (WriterWrite (zlib lib) w p)))"
  by (simp add: zlibWriteCloser_Write_def split: prod.splits)

lemma Close_gzip:
  "Close lib (gzipWriteCloser w) =
     (Wrap (fst (WriterClose (gzip lib) w)) ''failed to close gzip writer'',
      gzipWriteCloser (snd (WriterClose (gzip lib) w)))"
  by (simp add: gzipWriteCloser_Close_def Wrap_def split: prod.splits option.splits)

lemma Close_zlib:
  "Close lib (zlibWriteCloser w) =
     (Wrap (fst (WriterClose (zlib lib) w)) ''failed to close zlib writer'',
      zlibWriteCloser (snd (WriterClose (zlib lib) w)))"
  by (simp add: zlibWriteCloser_Close_def Wrap_def split: prod.splits option.splits)

lemma Read_gzip:
  "Read lib (gzip_Reader r) n =
     (fst (ReaderRead (gzip lib) r n), gzip_Reader (snd (ReaderRead (gzip lib) r n)))"
  by (simp split: prod.splits)

lemma Read_zlib:
  "Read lib (zlibReadCloser r) n =
     (fst (ReaderRead (zlib lib) r n), zlibReadCloser (snd (ReaderRead (zlib lib) r n)))"
  by (simp add: zlibReadCloser_Read_def split: prod.splits)

lemma Wrap_None_iff: "Wrap err msg = None \<longleftrightarrow> err = None"
  by (simp add: Wrap_def split: option.splits)

lemma WriteAll_gzip:
  "WriteAll (Write lib) (gzipWriteCloser w) chunks =
     (fst (WriteAll (WriterWrite (gzip lib)) w chunks),
      gzipWriteCloser (snd (WriteAll (WriterWrite (gzip lib)) w chunks)))"
proof (induction chunks arbitrary: w)
  case Nil
  show ?case by simp
next
  case (Cons p ps)
  obtain n err w' where step: "WriterWrite (gzip lib) w p = ((n, err), w')"
    by (metis prod.exhaust)
  show ?case
    by (cases err) (simp_all add: Write_gzip step Cons.IH del: Write.simps)
qed

lemma WriteAll_zlib:
  "WriteAll (Write lib) (zlibWriteCloser w) chunks =
     (fst (WriteAll (WriterWrite (zlib lib)) w chunks),
      zlibWriteCloser (snd (WriteAll (WriterWrite (zlib lib)) w chunks)))"
proof (induction chunks arbitrary: w)
  case Nil
  show ?case by simp
next
  case (Cons p ps)
  obtain n err w' where step: "WriterWrite (zlib lib) w p = ((n, err), w')"
    by (metis prod.exhaust)
  show ?case
    by (cases err) (simp_all add: Write_zlib step Cons.IH del: Write.simps)
qed

lemma ReadAll_gzip:
  "ReadAll (Read lib) sizes (gzip_Reader r) b = ReadAll (ReaderRead (gzip lib)) sizes r b"
proof (induction sizes arbitrary: r b)
  case Nil
  show ?case by simp
next
  case (Cons n ns)
  obtain p err r' where step: "ReaderRead (gzip lib) r n = ((p, err), r')"
    by (metis prod.exhaust)
  show ?case
    by (cases err) (simp_all add: Read_gzip step Cons.IH del: Read.simps)
qed

lemma ReadAll_zlib:
  "ReadAll (Read lib) sizes (zlibReadCloser r) b = ReadAll (ReaderRead (zlib lib)) sizes r b"
proof (induction sizes arbitrary: r b)
  case Nil
  show ?case by simp
next
  case (Cons n ns)
  obtain p err r' where step: "ReaderRead (zlib lib) r n = ((p, err), r')"
    by (metis prod.exhaust)
  show ?case
    by (cases err) (simp_all add: Read_zlib step Cons.IH del: Read.simps)
qed

lemma compress_gzip:
  assumes "algorithm m = Gzip" and "codec_compress (gzip lib) (level m) chunks = Inr z"
  shows "compress lib m chunks = Inr (Inr z)"
  using assms
  by (auto simp add: compress_def codec_compress_def Writer_Gzip WriteAll_gzip Close_gzip Wrap_def
      simp del: Close.simps split: sum.splits prod.splits option.splits)

lemma compress_zlib:
  assumes "algorithm m = Zlib" and "codec_compress (zlib lib) (level m) chunks = Inr z"
  shows "compress lib m chunks = Inr (Inr z)"
  using assms
  by (auto simp add: compress_def codec_compress_def Writer_Zlib WriteAll_zlib Close_zlib Wrap_def
      simp del: Close.simps split: sum.splits prod.splits option.splits)

lemma decompress_gzip:
  assumes "algorithm m = Gzip" and "codec_decompress (gzip lib) sizes z = Some (Inr res)"
  shows "decompress lib m sizes z = Some (Inr res)"
  using assms
  by (auto simp add: decompress_def codec_decompress_def Reader_Gzip ReadAll_gzip split: sum.splits)

lemma decompress_zlib:
  assumes "algorithm m = Zlib" and "codec_decompress (zlib lib) sizes z = Some (Inr res)"
  shows "decompress lib m sizes z = Some (Inr res)"
  using assms
  by (auto simp add: decompress_def codec_decompress_def Reader_Zlib ReadAll_zlib split: sum.splits)

lemma New_single_level:
  "1 \<le> L \<Longrightarrow> L \<le> 9 \<Longrightarrow> New a [WithLevel L] = \<lparr>algorithm = a, level = L\<rparr>"
  by (simp add: New_def WithLevel_def)

text \<open>
  Claim C1. For \<^verbatim>\<open>Gzip\<close> and for \<^verbatim>\<open>Zlib\<close>, every level L in 1..9 and every byte
  sequence, given as the chunks of the successive \<^verbatim>\<open>Write\<close> calls (no chunk at all and
  empty chunks included): writing the chunks through the adapter returned by
  \<^verbatim>\<open>Writer\<close> and closing it yields, without panic or error, the bytes the library's
  codec produces at level L, and reading everything from the adapter returned by
  \<^verbatim>\<open>Reader\<close> over those bytes yields the concatenation of the chunks with no error,
  whenever the library's codec itself reads that sequence back from its own output.
\<close>

theorem roundtrip:
  assumes "a = Gzip \<or> a = Zlib" and "1 \<le> L" and "L \<le> 9"
    and "lib_compress lib a L chunks = Inr z"
    and "lib_decompress lib a sizes z = Some (Inr (concat chunks, None))"
  shows "compress lib (New a [WithLevel L]) chunks = Inr (Inr z)
       \<and> decompress lib (New a [WithLevel L]) sizes z = Some (Inr (concat chunks, None))"
proof -
  let ?m = "New a [WithLevel L]"
  have m: "algorithm ?m = a" "level ?m = L"
    using assms(2,3) by (simp_all add: New_single_level)
  from assms(1) show ?thesis
  proof
    assume a: "a = Gzip"
    have c: "codec_compress (gzip lib) (level ?m) chunks = Inr z"
      unfolding m(2) using assms(4) a by (simp add: lib_compress_def)
    have d: "codec_decompress (gzip lib) sizes z = Some (Inr (concat chunks, None))"
      using assms(5) a by (simp add: lib_decompress_def)
    have alg: "algorithm ?m = Gzip"
      unfolding m(1) by (rule a)
    from compress_gzip [OF alg c] decompress_gzip [OF alg d] show ?thesis
      by simp
  next
    assume a: "a = Zlib"
    then have ng: "a \<noteq> Gzip" by (simp add: Gzip_def Zlib_def)
    have c: "codec_compress (zlib lib) (level ?m) chunks = Inr z"
      unfolding m(2) using assms(4) ng by (simp add: lib_compress_def)
    have d: "codec_decompress (zlib lib) sizes z = Some (Inr (concat chunks, None))"
      using assms(5) ng by (simp add: lib_decompress_def)
    have alg: "algorithm ?m = Zlib"
      unfolding m(1) by (rule a)
    from compress_zlib [OF alg c] decompress_zlib [OF alg d] show ?thesis
      by simp
  qed
qed



theorem roundtrip_witness:
  "compress (stored_lib 100) (New Gzip [WithLevel 9]) [[72, 105], [33]] =
     Inr (Inr [0x1f, 0x8b, 72, 105, 33, 210])
   \<and> decompress (stored_lib 100) (New Gzip [WithLevel 9]) [512, 512] [0x1f, 0x8b, 72, 105, 33, 210] =
     Some (Inr ([72, 105, 33], None))
   \<and> compress (stored_lib 100) (New Zlib [WithLevel 1]) [] = Inr (Inr [0x78, 0x9c, 0])
   \<and> decompress (stored_lib 100) (New Zlib [WithLevel 1]) [512] [0x78, 0x9c, 0] = Some (Inr ([], None))"
proof -
  have g: "Gzip = Gzip \<or> Gzip = Zlib" and z: "Zlib = Gzip \<or> Zlib = Zlib"
    by simp_all
  have gc: "lib_compress (stored_lib 100) Gzip 9 [[72, 105], [33]] = Inr [0x1f, 0x8b, 72, 105, 33, 210]"
    by (simp add: lib_compress_def codec_compress_def stored_defs)
  have gd: "lib_decompress (stored_lib 100) Gzip [512, 512] [0x1f, 0x8b, 72, 105, 33, 210] =
      Some (Inr (concat [[72, 105], [33]], None))"
    by (simp add: lib_decompress_def codec_decompress_def stored_defs)
  have zc: "lib_compress (stored_lib 100) Zlib 1 [] = Inr [0x78, 0x9c, 0]"
    by (simp add: lib_compress_def codec_compress_def stored_defs Gzip_def Zlib_def)
  have zd: "lib_decompress (stored_lib 100) Zlib [512] [0x78, 0x9c, 0] = Some (Inr (concat [], None))"
    by (simp add: lib_decompress_def codec_decompress_def stored_defs Gzip_def Zlib_def)
  from roundtrip [OF g _ _ gc gd] roundtrip [OF z _ _ zc zd] show ?thesis
    by simp
qed

section \<open>Closing the write side\<close>

lemma Writer_Inr_Gzip:
  "algorithm m = Gzip \<Longrightarrow> Writer lib m w = Inr cw \<Longrightarrow> \<exists>gw. cw = gzipWriteCloser gw"
  by (auto simp add: Writer_Gzip split: sum.splits)

lemma Writer_Inr_Zlib:
  "algorithm m = Zlib \<Longrightarrow> Writer lib m w = Inr cw \<Longrightarrow> \<exists>zw. cw = zlibWriteCloser zw"
  by (auto simp add: Writer_Zlib split: sum.splits)

lemma Close_gzip_cases:
  "Close lib (gzipWriteCloser gw) =
     (case WriterClose (gzip lib) gw of
        (None, gw') \<Rightarrow> (None, gzipWriteCloser gw')
      | (Some err, gw') \<Rightarrow>
          (Some (withMessage err ''failed to close gzip writer''), gzipWriteCloser gw'))"
  by (simp add: gzipWriteCloser_Close_def Wrap_def split: prod.splits option.splits)

lemma Close_zlib_cases:
  "Close lib (zlibWriteCloser zw) =
     (case WriterClose (zlib lib) zw of
        (None, zw') \<Rightarrow> (None, zlibWriteCloser zw')
      | (Some err, zw') \<Rightarrow>
          (Some (withMessage err ''failed to close zlib writer''), zlibWriteCloser zw'))"
  by (simp add: zlibWriteCloser_Close_def Wrap_def split: prod.splits option.splits)

text \<open>
  Claim C5. The adapter returned by \<^verbatim>\<open>Writer\<close> is the gzip wrapper for \<^verbatim>\<open>Gzip\<close> and the
  zlib wrapper for \<^verbatim>\<open>Zlib\<close>, and both have \<^verbatim>\<open>Write\<close> and \<^verbatim>\<open>Close\<close>. \<^verbatim>\<open>Close\<close> closes
  the codec's writer, so the sink holds what the codec's close leaves there. It returns
  \<^verbatim>\<open>nil\<close> exactly when the codec's close returns \<^verbatim>\<open>nil\<close>; otherwise it returns the codec's
  error wrapped with the message "failed to close gzip writer" or "failed to close
  zlib writer", whose text is that message, a colon, and the text of the cause.
\<close>

theorem Close_wraps_error:
  "(algorithm m = Gzip \<and> Writer lib m w = Inr cw \<longrightarrow> (\<exists>gw. cw = gzipWriteCloser gw))
   \<and> (algorithm m = Zlib \<and> Writer lib m w = Inr cw \<longrightarrow> (\<exists>zw. cw = zlibWriteCloser zw))
   \<and> Close lib (gzipWriteCloser gw) =
       (case WriterClose (gzip lib) gw of
          (None, gw') \<Rightarrow> (None, gzipWriteCloser gw')
        | (Some err, gw') \<Rightarrow>
            (Some (withMessage err ''failed to close gzip writer''), gzipWriteCloser gw'))
   \<and> Close lib (zlibWriteCloser zw) =
       (case WriterClose (zlib lib) zw of
          (None, zw') \<Rightarrow> (None, zlibWriteCloser zw')
        | (Some err, zw') \<Rightarrow>
            (Some (withMessage err ''failed to close zlib writer''), zlibWriteCloser zw'))
   \<and> (fst (Close lib (gzipWriteCloser gw)) = None \<longleftrightarrow> fst (WriterClose (gzip lib) gw) = None)
   \<and> (fst (Close lib (zlibWriteCloser zw)) = None \<longleftrightarrow> fst (WriterClose (zlib lib) zw) = None)
   \<and> Sink lib (snd (Close lib (gzipWriteCloser gw))) =
       WriterSink (gzip lib) (snd (WriterClose (gzip lib) gw))
   \<and> Sink lib (snd (Close lib (zlibWriteCloser zw))) =
       WriterSink (zlib lib) (snd (WriterClose (zlib lib) zw))
   \<and> Error (withMessage e ''failed to close gzip writer'') = ''failed to close gzip writer: '' @ Error e
   \<and> Error (withMessage e ''failed to close zlib writer'') = ''failed to close zlib writer: '' @ Error e
   \<and> Cause (withMessage e msg) = Cause e"
proof -
  have g: "fst (Close lib (gzipWriteCloser gw)) = None \<longleftrightarrow> fst (WriterClose (gzip lib) gw) = None"
    unfolding Close_gzip by (simp add: Wrap_None_iff)
  have z: "fst (Close lib (zlibWriteCloser zw)) = None \<longleftrightarrow> fst (WriterClose (zlib lib) zw) = None"
    unfolding Close_zlib by (simp add: Wrap_None_iff)
  have sg: "Sink lib (snd (Close lib (gzipWriteCloser gw))) =
       WriterSink (gzip lib) (snd (WriterClose (gzip lib) gw))"
    unfolding Close_gzip by simp
  have sz: "Sink lib (snd (Close lib (zlibWriteCloser zw))) =
       WriterSink (zlib lib) (snd (WriterClose (zlib lib) zw))"
    unfolding Close_zlib by simp
  have e: "Error (withMessage e ''failed to close gzip writer'') = ''failed to close gzip writer: '' @ Error e"
    "Error (withMessage e ''failed to close zlib writer'') = ''failed to close zlib writer: '' @ Error e"
    "Cause (withMessage e msg) = Cause e"
    by simp_all
  from Writer_Inr_Gzip [of m lib w cw] Writer_Inr_Zlib [of m lib w cw]
    Close_gzip_cases [of lib gw] Close_zlib_cases [of lib zw] g z sg sz e
  show ?thesis by blast
qed

theorem Close_wraps_error_witness:
  "Close (stored_lib 5) (gzipWriteCloser \<lparr>sw_sink = [], sw_data = [72, 105, 33], sw_closed = False\<rparr>) =
     (Some (withMessage (ErrorString ''short write'') ''failed to close gzip writer''),
      gzipWriteCloser \<lparr>sw_sink = [], sw_data = [72, 105, 33], sw_closed = True\<rparr>)
   \<and> Close (stored_lib 5) (zlibWriteCloser \<lparr>sw_sink = [], sw_data = [72, 105, 33], sw_closed = False\<rparr>) =
     (Some (withMessage (ErrorString ''short write'') ''failed to close zlib writer''),
      zlibWriteCloser \<lparr>sw_sink = [], sw_data = [72, 105, 33], sw_closed = True\<rparr>)
   \<and> Close (stored_lib 100) (gzipWriteCloser \<lparr>sw_sink = [], sw_data = [72, 105, 33], sw_closed = False\<rparr>) =
     (None, gzipWriteCloser
        \<lparr>sw_sink = [0x1f, 0x8b, 72, 105, 33, 210], sw_data = [72, 105, 33], sw_closed = True\<rparr>)
   \<and> Error (withMessage (ErrorString ''short write'') ''failed to close gzip writer'') =
       ''failed to close gzip writer: short write''
   \<and> (\<exists>gw. Writer (stored_lib 5) (New Gzip []) [] = Inr (gzipWriteCloser gw))
   \<and> (\<exists>zw. Writer (stored_lib 5) (New Zlib []) [] = Inr (zlibWriteCloser zw))"
proof -
  let ?w = "\<lparr>sw_sink = [], sw_data = [72, 105, 33], sw_closed = False\<rparr>"
  have wg: "Writer (stored_lib 5) (New Gzip []) [] =
      Inr (gzipWriteCloser \<lparr>sw_sink = [], sw_data = [], sw_closed = False\<rparr>)"
    by (simp add: Writer_def New_def stored_defs)
  have wz: "Writer (stored_lib 5) (New Zlib []) [] =
      Inr (zlibWriteCloser \<lparr>sw_sink = [], sw_data = [], sw_closed = False\<rparr>)"
    by (simp add: Writer_def New_def stored_defs Gzip_def Zlib_def)
  have ag: "algorithm (New Gzip []) = Gzip" and az: "algorithm (New Zlib []) = Zlib"
    by (simp_all add: New_def)
  from Close_wraps_error [where lib = "stored_lib 5" and gw = ?w and zw = ?w
      and e = "ErrorString ''short write''" and m = "New Gzip []" and w = "[]"
      and cw = "gzipWriteCloser \<lparr>sw_sink = [], sw_data = [], sw_closed = False\<rparr>"]
    Close_wraps_error [where lib = "stored_lib 5" and m = "New Zlib []" and w = "[]"
      and cw = "zlibWriteCloser \<lparr>sw_sink = [], sw_data = [], sw_closed = False\<rparr>"]
    Close_wraps_error [where lib = "stored_lib 100" and gw = ?w]
    wg wz ag az
  show ?thesis
    by (simp add: stored_defs)
qed

section \<open>Opening and reading the read side\<close>

lemma decompress_Gzip_ok:
  "algorithm m = Gzip \<Longrightarrow> NewReader (gzip lib) src = Inr gr \<Longrightarrow>
     decompress lib m sizes src = map_option Inr (ReadAll (ReaderRead (gzip lib)) sizes gr [])"
  by (simp add: decompress_def Reader_Gzip ReadAll_gzip)

lemma decompress_Zlib_ok:
  "algorithm m = Zlib \<Longrightarrow> NewReader (zlib lib) src = Inr zr \<Longrightarrow>
     decompress lib m sizes src = map_option Inr (ReadAll (ReaderRead (zlib lib)) sizes zr [])"
  by (simp add: decompress_def Reader_Zlib ReadAll_zlib)

text \<open>
  Claim C6. For a supported algorithm, when the library's \<^verbatim>\<open>NewReader\<close> rejects the
  source (its header is invalid), \<^verbatim>\<open>Reader\<close> panics with "failed to create gzip
  reader: " or "failed to create zlib reader: " followed by the error's text, and no
  adapter is returned. When \<^verbatim>\<open>NewReader\<close> accepts the source, \<^verbatim>\<open>Reader\<close> returns the
  adapter, each \<^verbatim>\<open>Read\<close> on it returns what the codec's \<^verbatim>\<open>Read\<close> returns, and reading
  everything gives the data together with the error a later \<^verbatim>\<open>Read\<close> reported, as a
  returned value and never as a panic.
\<close>

theorem Reader_header_panic_read_error:
  "(algorithm m = Gzip \<and> NewReader (gzip lib) src = Inl err \<longrightarrow>
      Reader lib m src = Inl (Panic (''failed to create gzip reader: '' @ Error err)))
   \<and> (algorithm m = Zlib \<and> NewReader (zlib lib) src = Inl err \<longrightarrow>
      Reader lib m src = Inl (Panic (''failed to create zlib reader: '' @ Error err)))
   \<and> (algorithm m = Gzip \<and> NewReader (gzip lib) src = Inr gr \<longrightarrow>
      Reader lib m src = Inr (gzip_Reader gr)
      \<and> decompress lib m sizes src = map_option Inr (ReadAll (ReaderRead (gzip lib)) sizes gr []))
   \<and> (algorithm m = Zlib \<and> NewReader (zlib lib) src = Inr zr \<longrightarrow>
      Reader lib m src = Inr (zlibReadCloser zr)
      \<and> decompress lib m sizes src = map_option Inr (ReadAll (ReaderRead (zlib lib)) sizes zr []))
   \<and> Read lib (gzip_Reader r1) n =
       (fst (ReaderRead (gzip lib) r1 n), gzip_Reader (snd (ReaderRead (gzip lib) r1 n)))
   \<and> Read lib (zlibReadCloser r2) n =
       (fst (ReaderRead (zlib lib) r2 n), zlibReadCloser (snd (ReaderRead (zlib lib) r2 n)))"
proof -
  have g: "algorithm m = Gzip \<and> NewReader (gzip lib) src = Inl err \<longrightarrow>
      Reader lib m src = Inl (Panic (''failed to create gzip reader: '' @ Error err))"
    by (simp add: Reader_Gzip)
  have z: "algorithm m = Zlib \<and> NewReader (zlib lib) src = Inl err \<longrightarrow>
      Reader lib m src = Inl (Panic (''failed to create zlib reader: '' @ Error err))"
    by (simp add: Reader_Zlib)
  have g': "algorithm m = Gzip \<and> NewReader (gzip lib) src = Inr gr \<longrightarrow>
      Reader lib m src = Inr (gzip_Reader gr)
      \<and> decompress lib m sizes src = map_option Inr (ReadAll (ReaderRead (gzip lib)) sizes gr [])"
    by (simp add: Reader_Gzip decompress_Gzip_ok)
  have z': "algorithm m = Zlib \<and> NewReader (zlib lib) src = Inr zr \<longrightarrow>
      Reader lib m src = Inr (zlibReadCloser zr)
      \<and> decompress lib m sizes src = map_option Inr (ReadAll (ReaderRead (zlib lib)) sizes zr [])"
    by (simp add: Reader_Zlib decompress_Zlib_ok)
  from g z g' z' Read_gzip [of lib r1 n] Read_zlib [of lib r2 n] show ?thesis
    by blast
qed

theorem Reader_header_panic_read_error_witness:
  "Reader (stored_lib 100) (New Gzip []) [0x78, 0x9c, 72, 105, 177] =
     Inl (Panic ''failed to create gzip reader: invalid header'')
   \<and> Reader (stored_lib 100) (New Zlib []) [] =
     Inl (Panic ''failed to create zlib reader: invalid header'')
   \<and> decompress (stored_lib 100) (New Gzip []) [512, 512] [0x1f, 0x8b, 72, 105, 0] =
     Some (Inr ([72, 105], Some (ErrorString ''invalid checksum'')))
   \<and> decompress (stored_lib 100) (New Zlib []) [1, 1, 1] [0x78, 0x9c, 72, 105] =
     Some (Inr ([72], Some (ErrorString ''invalid checksum'')))
   \<and> decompress (stored_lib 100) (New Zlib []) [1, 1, 1] [0x78, 0x9c, 72, 105, 177] =
     Some (Inr ([72, 105], None))"
proof -
  have ag: "algorithm (New Gzip []) = Gzip" and az: "algorithm (New Zlib []) = Zlib"
    by (simp_all add: New_def)
  have 1: "NewReader (gzip (stored_lib 100)) [0x78, 0x9c, 72, 105, 177] = Inl (ErrorString ''invalid header'')"
    by (simp add: stored_defs)
  have 2: "NewReader (zlib (stored_lib 100)) [] = Inl (ErrorString ''invalid header'')"
    by (simp add: stored_defs)
  have 3: "NewReader (gzip (stored_lib 100)) [0x1f, 0x8b, 72, 105, 0] = Inr \<lparr>sr_rest = [72, 105, 0], sr_sum = 0\<rparr>"
    by (simp add: stored_defs)
  have 4: "NewReader (zlib (stored_lib 100)) [0x78, 0x9c, 72, 105] = Inr \<lparr>sr_rest = [72, 105], sr_sum = 0\<rparr>"
    by (simp add: stored_defs)
  have 5: "NewReader (zlib (stored_lib 100)) [0x78, 0x9c, 72, 105, 177] = Inr \<lparr>sr_rest = [72, 105, 177], sr_sum = 0\<rparr>"
    by (simp add: stored_defs)
  from Reader_header_panic_read_error [where lib = "stored_lib 100" and m = "New Gzip []"
      and src = "[0x78, 0x9c, 72, 105, 177]" and err = "ErrorString ''invalid header''"]
    Reader_header_panic_read_error [where lib = "stored_lib 100" and m = "New Zlib []"
      and src = "[]" and err = "ErrorString ''invalid header''"]
    Reader_header_panic_read_error [where lib = "stored_lib 100" and m = "New Gzip []"
      and src = "[0x1f, 0x8b, 72, 105, 0]" and gr = "\<lparr>sr_rest = [72, 105, 0], sr_sum = 0\<rparr>"
      and sizes = "[512, 512]"]
    Reader_header_panic_read_error [where lib = "stored_lib 100" and m = "New Zlib []"
      and src = "[0x78, 0x9c, 72, 105]" and zr = "\<lparr>sr_rest = [72, 105], sr_sum = 0\<rparr>"
      and sizes = "[1, 1, 1]"]
    Reader_header_panic_read_error [where lib = "stored_lib 100" and m = "New Zlib []"
      and src = "[0x78, 0x9c, 72, 105, 177]" and zr = "\<lparr>sr_rest = [72, 105, 177], sr_sum = 0\<rparr>"
      and sizes = "[1, 1, 1]"]
    ag az 1 2 3 4 5
  show ?thesis
    by (simp add: stored_defs)
qed

section \<open>No framing of the package's own\<close>

lemma foldl_adapter_step_gzip:
  "foldl (adapter_step lib) (gzipWriteCloser w) ops =
     gzipWriteCloser (foldl (codec_step (gzip lib)) w ops)"
proof (induction ops arbitrary: w)
  case Nil
  show ?case by simp
next
  case (Cons x xs)
  show ?case
    by (cases x) (simp_all add: Write_gzip Close_gzip Cons.IH del: Write.simps Close.simps)
qed

lemma foldl_adapter_step_zlib:
  "foldl (adapter_step lib) (zlibWriteCloser w) ops =
     zlibWriteCloser (foldl (codec_step (zlib lib)) w ops)"
proof (induction ops arbitrary: w)
  case Nil
  show ?case by simp
next
  case (Cons x xs)
  show ?case
    by (cases x) (simp_all add: Write_zlib Close_zlib Cons.IH del: Write.simps Close.simps)
qed

text \<open>
  Claim C7. After any sequence of \<^verbatim>\<open>Write\<close> and \<^verbatim>\<open>Close\<close> calls on the adapter returned
  by \<^verbatim>\<open>Writer\<close>, the empty sequence included, the sink holds exactly the bytes it holds
  after the same calls on the codec's own writer at the middleware's level: the
  package adds no byte before, between or after the codec's output. Each \<^verbatim>\<open>Write\<close>
  hands its slice to the codec's \<^verbatim>\<open>Write\<close> and returns the codec's result.
\<close>

theorem no_own_framing:
  "(algorithm m = Gzip \<longrightarrow>
      middleware_sink lib m w ops =
        (case codec_sink (gzip lib) w (level m) ops of
           Inl err \<Rightarrow> Inl (Panic (''failed to create gzip writer: '' @ Error err))
         | Inr bytes \<Rightarrow> Inr bytes))
   \<and> (algorithm m = Zlib \<longrightarrow>
      middleware_sink lib m w ops =
        (case codec_sink (zlib lib) w (level m) ops of
           Inl err \<Rightarrow> Inl (Panic (''failed to create zlib writer: '' @ Error err))
         | Inr bytes \<Rightarrow> Inr bytes))
   \<and> Write lib (gzipWriteCloser gw) p =
       (fst (WriterWrite (gzip lib) gw p), gzipWriteCloser (snd (WriterWrite (gzip lib) gw p)))
   \<and> Write lib (zlibWriteCloser zw) p =
       (fst (WriterWrite (zlib lib) zw p), zlibWriteCloser (snd (WriterWrite (zlib lib) zw p)))"
proof -
  have g: "algorithm m = Gzip \<longrightarrow>
      middleware_sink lib m w ops =
        (case codec_sink (gzip lib) w (level m) ops of
           Inl err \<Rightarrow> Inl (Panic (''failed to create gzip writer: '' @ Error err))
         | Inr bytes \<Rightarrow> Inr bytes)"
    by (simp add: middleware_sink_def codec_sink_def Writer_Gzip foldl_adapter_step_gzip
        split: sum.splits)
  have z: "algorithm m = Zlib \<longrightarrow>
      middleware_sink lib m w ops =
        (case codec_sink (zlib lib) w (level m) ops of
           Inl err \<Rightarrow> Inl (Panic (''failed to create zlib writer: '' @ Error err))
         | Inr bytes \<Rightarrow> Inr bytes)"
    by (simp add: middleware_sink_def codec_sink_def Writer_Zlib foldl_adapter_step_zlib
        split: sum.splits)
  from g z Write_gzip [of lib gw p] Write_zlib [of lib zw p] show ?thesis
    by blast
qed

theorem no_own_framing_witness:
  "middleware_sink (stored_lib 100) (New Gzip [WithLevel 9]) [7] [OpWrite [72], OpWrite [105, 33], OpClose] =
     Inr [7, 0x1f, 0x8b, 72, 105, 33, 210]
   \<and> codec_sink (gzip (stored_lib 100)) [7] 9 [OpWrite [72], OpWrite [105, 33], OpClose] =
     Inr [7, 0x1f, 0x8b, 72, 105, 33, 210]
   \<and> middleware_sink (stored_lib 100) (New Zlib []) [] [OpWrite [72]] = Inr []
   \<and> middleware_sink (stored_lib 100) (New Zlib []) [] [] = Inr []
   \<and> middleware_sink (stored_lib 100) (New Zlib []) [] [OpClose, OpWrite [1], OpClose] = Inr [0x78, 0x9c, 0]"
proof -
  have ag: "algorithm (New Gzip [WithLevel 9]) = Gzip" "level (New Gzip [WithLevel 9]) = 9"
    and az: "algorithm (New Zlib []) = Zlib" "level (New Zlib []) = 6"
    by (simp_all add: New_def WithLevel_def)
  have 1: "codec_sink (gzip (stored_lib 100)) [7] 9 [OpWrite [72], OpWrite [105, 33], OpClose] =
     Inr [7, 0x1f, 0x8b, 72, 105, 33, 210]"
    by (simp add: codec_sink_def stored_defs)
  have 2: "codec_sink (zlib (stored_lib 100)) [] 6 [OpWrite [72]] = Inr []"
    by (simp add: codec_sink_def stored_defs)
  have 3: "codec_sink (zlib (stored_lib 100)) [] 6 [] = Inr []"
    by (simp add: codec_sink_def stored_defs)
  have 4: "codec_sink (zlib (stored_lib 100)) [] 6 [OpClose, OpWrite [1], OpClose] = Inr [0x78, 0x9c, 0]"
    by (simp add: codec_sink_def stored_defs)
  from no_own_framing [where lib = "stored_lib 100" and m = "New Gzip [WithLevel 9]" and w = "[7]"
      and ops = "[OpWrite [72], OpWrite [105, 33], OpClose]"]
    no_own_framing [where lib = "stored_lib 100" and m = "New Zlib []" and w = "[]"
      and ops = "[OpWrite [72]]"]
    no_own_framing [where lib = "stored_lib 100" and m = "New Zlib []" and w = "[]"
      and ops = "[]"]
    no_own_framing [where lib = "stored_lib 100" and m = "New Zlib []" and w = "[]"
      and ops = "[OpClose, OpWrite [1], OpClose]"]
    ag az 1 2 3 4
  show ?thesis
    by simp
qed

end
